theory Spec2Isabelle
  imports Main
begin

section \<open>JavaScript values\<close>

text \<open>
  The values that flow through \<^verbatim>\<open>redis-connection-pool.js\<close>: keys, fields, payloads,
  continuations, store replies and configuration objects. Numbers are the integral ones
  (ports, counts, version components). A function value is known by its identity only;
  calling it is an effect that the model records.
\<close>

datatype jsval =
    JUndefined
  | JNull
  | JBool bool
  | JNum int
  | JStr string
  | JFun nat
  | JArr "jsval list"
  | JObj "(string \<times> jsval) list"

datatype jstype = TUndefined | TObject | TBoolean | TNumber | TString | TFunction

fun typeof :: "jsval \<Rightarrow> jstype" where
  "typeof JUndefined = TUndefined"
| "typeof JNull = TObject"
| "typeof (JBool b) = TBoolean"
| "typeof (JNum n) = TNumber"
| "typeof (JStr s) = TString"
| "typeof (JFun f) = TFunction"
| "typeof (JArr xs) = TObject"
| "typeof (JObj ps) = TObject"

text \<open>What \<^verbatim>\<open>if (v)\<close> and \<^verbatim>\<open>!v\<close> test.\<close>

fun truthy :: "jsval \<Rightarrow> bool" where
  "truthy JUndefined = False"
| "truthy JNull = False"
| "truthy (JBool b) = b"
| "truthy (JNum n) = (n \<noteq> 0)"
| "truthy (JStr s) = (s \<noteq> [])"
| "truthy (JFun f) = True"
| "truthy (JArr xs) = True"
| "truthy (JObj ps) = True"

datatype exn = TypeError | ReferenceError | Unmodelled

text \<open>
  \<^verbatim>\<open>v[i]\<close> for a truthy \<^verbatim>\<open>v\<close>: an element of an array, a character of a string, the
  property named by the index of an object, and \<^verbatim>\<open>undefined\<close> on everything else.
  (On \<^verbatim>\<open>undefined\<close> and \<^verbatim>\<open>null\<close> the read raises; the one caller tests \<^verbatim>\<open>!v\<close> first.)
\<close>

fun js_index1 :: "jsval \<Rightarrow> jsval" where
  "js_index1 (JArr xs) = (if 1 < length xs then xs ! 1 else JUndefined)"
| "js_index1 (JStr s) = (if 1 < length s then JStr [s ! 1] else JUndefined)"
| "js_index1 (JObj ps) = (case map_of ps ''1'' of Some v \<Rightarrow> v | None \<Rightarrow> JUndefined)"
| "js_index1 v = JUndefined"

text \<open>\<^verbatim>\<open>o.name\<close>: raises on \<^verbatim>\<open>undefined\<close> and \<^verbatim>\<open>null\<close>; the properties read by this
  program (\<^verbatim>\<open>DEBUG\<close>, \<^verbatim>\<open>HOST\<close>, ...) exist on plain objects only.\<close>

fun get_prop :: "jsval \<Rightarrow> string \<Rightarrow> exn + jsval" where
  "get_prop JUndefined name = Inl TypeError"
| "get_prop JNull name = Inl TypeError"
| "get_prop (JObj ps) name = Inr (case map_of ps name of Some v \<Rightarrow> v | None \<Rightarrow> JUndefined)"
| "get_prop v name = Inr JUndefined"

text \<open>The property key that \<^verbatim>\<open>table[v]\<close> uses. Numbers, functions, arrays and objects
  as keys are outside the model.\<close>

fun to_key :: "jsval \<Rightarrow> string option" where
  "to_key JUndefined = Some ''undefined''"
| "to_key JNull = Some ''null''"
| "to_key (JBool b) = Some (if b then ''true'' else ''false'')"
| "to_key (JStr s) = Some s"
| "to_key v = None"

text \<open>The decimal text of a number, as string concatenation with a number makes it.\<close>

definition digit_char :: "nat \<Rightarrow> char" where
  "digit_char d = char_of (d + 48)"

fun string_of_nat :: "nat \<Rightarrow> string" where
  "string_of_nat n =
     (let units = digit_char (n mod 10)
      in if 10 \<le> n then string_of_nat (n div 10) @ [units] else [units])"

declare string_of_nat.simps [simp del]

section \<open>Closures and effects\<close>

text \<open>
  Every callback the source hands to the pool, to a store client or to a timer is a
  closure; \<open>handler\<close> names each one together with the variables it captures. A pool is
  known by the address of the instance that owns it, a store client by a number, the
  \<^verbatim>\<open>responded\<close> variable of one call by the number of its cell, a deferred by a number.
\<close>

datatype handler =
    AcqSingle nat string jsval jsval
      \<comment> \<open>redisSingle's acquire callback: pool, funcName, key, val\<close>
  | AcqSet nat string jsval jsval jsval jsval
      \<comment> \<open>_setFuncs' acquire callback: pool, funcName, key, field, data, cb\<close>
  | AcqGet nat string jsval jsval jsval
      \<comment> \<open>_getFuncs' acquire callback: self, funcName, key, field, cb\<close>
  | OnSingle nat nat
      \<comment> \<open>redisSingle's reply callback: pool, client\<close>
  | OnWrite nat nat string jsval
      \<comment> \<open>_setFuncs' reply callbacks: pool, client, text of the error log, cb\<close>
  | OnGet nat string nat jsval jsval nat
      \<comment> \<open>redisGet's reply callback: pool, funcName, client, key, cb, responded\<close>
  | OnHashGet nat nat jsval jsval
      \<comment> \<open>redisHashGet's reply callbacks: pool, client, key, cb\<close>
  | OnBlocking nat string nat jsval jsval nat
      \<comment> \<open>redisBlockingGet's reply callback: pool, funcName, client, key, cb, responded\<close>
  | Watchdog nat string nat jsval nat
      \<comment> \<open>redisGet's timer: pool, funcName, client, key, responded\<close>
  | PoolStats
  | OnKeys nat nat jsval jsval
      \<comment> \<open>clean's reply callback: self, client, key, cb\<close>
  | CheckError nat nat nat
      \<comment> \<open>redisCheck's 'error' listener: self, client, deferred\<close>
  | CheckReady nat nat nat
      \<comment> \<open>redisCheck's 'ready' listener: self, client, deferred\<close>

text \<open>
  The calls the program makes on the redis client library, on the pool, on timers, on
  the console, on deferreds and on the caller's continuations. \<open>CreateClient\<close> carries
  the number of the new client and the port and host, when given; \<open>ConsoleLog\<close> the
  constant text of the message (the values spliced into it are left out); \<open>SetTimeout\<close>
  the delay in milliseconds; \<open>Call\<close> the function value called and its arguments. The
  \<^verbatim>\<open>create\<close> and \<^verbatim>\<open>destroy\<close> functions handed to the pool run inside the pool and are
  not modelled.
\<close>

datatype action =
    CreateClient nat "(int \<times> string) option"
  | ClientOn nat string handler
  | ClientCmd nat string "jsval list" handler
  | ClientQuit nat
  | PoolCreate nat string int bool
  | PoolAcquire nat handler
  | PoolRelease nat nat
  | PoolDestroy nat nat
  | SetTimeout nat handler
  | ConsoleLog string
  | Call jsval "jsval list"
  | Defer nat
  | Resolve nat jsval
  | Reject nat jsval

section \<open>Instances and the program state\<close>

text \<open>
  The fields of a \<^verbatim>\<open>RedisConnectionPool\<close> object. \<^verbatim>\<open>VERSION_STRING\<close> and
  \<^verbatim>\<open>VERSION_ARRAY\<close> start as \<^verbatim>\<open>undefined\<close> (\<open>None\<close>); the store client reports the
  version as the text and as the array of its dot-separated parts converted to numbers,
  a part that is not a number being \<^verbatim>\<open>NaN\<close> (\<open>None\<close> in the array).
\<close>

record pool_instance =
  UID :: string
  DEBUG :: bool
  HOST :: string
  PORT :: int
  MAX_CLIENTS :: int
  BLOCKING_SUPPORT :: bool
  PERFORM_CHECKS :: bool
  VERSION_ARRAY :: "int option list option"
  VERSION_STRING :: "string option"

definition prototype :: pool_instance where
  "prototype =
     \<lparr> UID = ''redis-connection-pool-'', DEBUG = False, HOST = ''127.0.0.1'', PORT = 6379,
       MAX_CLIENTS = 30, BLOCKING_SUPPORT = True, PERFORM_CHECKS = False,
       VERSION_ARRAY = None, VERSION_STRING = None \<rparr>"

record pstate =
  redisConnectionPools :: "string \<Rightarrow> nat option"
  objects :: "nat \<Rightarrow> pool_instance"
  next_object :: nat
  responded :: "nat \<Rightarrow> bool"
  next_cell :: nat
  next_client :: nat
  next_deferred :: nat

definition initial :: pstate where
  "initial =
     \<lparr> redisConnectionPools = (\<lambda>k. None), objects = (\<lambda>a. prototype), next_object = 0,
       responded = (\<lambda>c. False), next_cell = 0, next_client = 0, next_deferred = 0 \<rparr>"

text \<open>What running one piece of code leaves behind: the calls it made, in order, the
  state, and the exception it ended with, if any.\<close>

record outcome =
  acts :: "action list"
  post :: pstate
  uncaught :: "exn option"

definition finish :: "action list \<Rightarrow> pstate \<Rightarrow> outcome" where
  "finish as st = \<lparr> acts = as, post = st, uncaught = None \<rparr>"

definition throws :: "action list \<Rightarrow> exn \<Rightarrow> pstate \<Rightarrow> outcome" where
  "throws as e st = \<lparr> acts = as, post = st, uncaught = Some e \<rparr>"

text \<open>\<^verbatim>\<open>cb(args)\<close> as the last statement of a callback, after the calls \<open>as\<close>.\<close>

definition call_last :: "action list \<Rightarrow> jsval \<Rightarrow> jsval list \<Rightarrow> pstate \<Rightarrow> outcome" where
  "call_last as cb args st =
     (if typeof cb = TFunction then finish (as @ [Call cb args]) st else throws as TypeError st)"

section \<open>The command dispatcher\<close>

subsection \<open>redisSingle\<close>

definition redisSingle :: "nat \<Rightarrow> string \<Rightarrow> jsval \<Rightarrow> jsval \<Rightarrow> action list" where
  "redisSingle self funcName key val = [PoolAcquire self (AcqSingle self funcName key val)]"

definition acq_single ::
  "nat \<Rightarrow> string \<Rightarrow> jsval \<Rightarrow> jsval \<Rightarrow> nat option \<Rightarrow> pstate \<Rightarrow> outcome" where
  "acq_single pool funcName key val client st =
     (case client of
        None \<Rightarrow> throws [] TypeError st
      | Some c \<Rightarrow>
          if truthy val then finish [ClientCmd c funcName [key, val] (OnSingle pool c)] st
          else finish [ClientCmd c funcName [key] (OnSingle pool c)] st)"

definition on_single :: "nat \<Rightarrow> nat \<Rightarrow> pstate \<Rightarrow> outcome" where
  "on_single pool client st = finish [PoolRelease pool client] st"

subsection \<open>_setFuncs\<close>

definition setFuncs ::
  "nat \<Rightarrow> string \<Rightarrow> jsval \<Rightarrow> jsval \<Rightarrow> jsval \<Rightarrow> jsval \<Rightarrow> action list" where
  "setFuncs self funcName key field data cb =
     (if typeof cb = TUndefined
      then [PoolAcquire self (AcqSet self funcName key JNull field data)]
      else [PoolAcquire self (AcqSet self funcName key field data cb)])"

definition acq_set ::
  "nat \<Rightarrow> string \<Rightarrow> jsval \<Rightarrow> jsval \<Rightarrow> jsval \<Rightarrow> jsval \<Rightarrow> nat option \<Rightarrow> pstate \<Rightarrow> outcome"
  where
  "acq_set pool funcName key field data cb client st =
     (case client of
        None \<Rightarrow> throws [] TypeError st
      | Some c \<Rightarrow>
          if funcName = ''hset'' then
            finish [ClientCmd c funcName [key, field, data]
                    (OnWrite pool c (''ERROR redis-connection-pool: '' @ funcName @ '': '') cb)] st
          else if funcName = ''set'' then
            finish [ClientCmd c funcName [key, data]
                    (OnWrite pool c (''ERROR redis-connection-pool: '' @ funcName @ '': '') cb)] st
          else
            finish [ClientCmd c funcName [key, data]
                    (OnWrite pool c ''ERROR redis-connection-pool: '' cb)] st)"

definition on_write ::
  "nat \<Rightarrow> nat \<Rightarrow> string \<Rightarrow> jsval \<Rightarrow> jsval \<Rightarrow> jsval \<Rightarrow> pstate \<Rightarrow> outcome" where
  "on_write pool client msg cb err reply st =
     finish ([PoolRelease pool client]
           @ (if truthy err then [ConsoleLog msg] else [])
           @ (if typeof cb = TFunction then [Call cb [err, reply]] else [])) st"

subsection \<open>_getFuncs and the three read paths\<close>

definition getFuncs :: "nat \<Rightarrow> string \<Rightarrow> jsval \<Rightarrow> jsval \<Rightarrow> jsval \<Rightarrow> action list" where
  "getFuncs self funcName key field cb =
     (if typeof field = TFunction \<and> typeof cb = TUndefined
      then [PoolAcquire self (AcqGet self funcName key JNull field)]
      else [PoolAcquire self (AcqGet self funcName key field cb)])"

definition redisGet ::
  "nat \<Rightarrow> string \<Rightarrow> nat option \<Rightarrow> jsval \<Rightarrow> jsval \<Rightarrow> pstate \<Rightarrow> outcome" where
  "redisGet self funcName client key cb st =
     (let r = next_cell st;
          st1 = st\<lparr> responded := (responded st)(r := False), next_cell := Suc r \<rparr>
      in case client of
           None \<Rightarrow> throws [] TypeError st1
         | Some c \<Rightarrow>
             finish [ClientCmd c funcName [key] (OnGet self funcName c key cb r),
                   SetTimeout 5000 (Watchdog self funcName c key r)] st1)"

definition on_get ::
  "nat \<Rightarrow> string \<Rightarrow> nat \<Rightarrow> jsval \<Rightarrow> jsval \<Rightarrow> nat \<Rightarrow> jsval \<Rightarrow> jsval \<Rightarrow> pstate \<Rightarrow> outcome"
  where
  "on_get pool funcName client key cb r err replies st =
     (let st1 = st\<lparr> responded := (responded st)(r := True) \<rparr>
      in if truthy err
         then call_last [PoolRelease pool client, ConsoleLog ''ERROR: redis error''] cb
                [err, JNull] st1
         else call_last [PoolRelease pool client] cb [err, replies] st1)"

definition watchdog :: "nat \<Rightarrow> string \<Rightarrow> nat \<Rightarrow> jsval \<Rightarrow> nat \<Rightarrow> pstate \<Rightarrow> outcome" where
  "watchdog pool funcName client key r st =
     (if \<not> responded st r
      then finish [ConsoleLog (''ERROR: redis.'' @ funcName
                   @ '' never returned (5s), destroying connection. ''),
                 PoolDestroy pool client] st
      else finish [] st)"

definition redisHashGet ::
  "nat \<Rightarrow> nat option \<Rightarrow> jsval \<Rightarrow> jsval \<Rightarrow> jsval \<Rightarrow> pstate \<Rightarrow> outcome" where
  "redisHashGet self client key field cb st =
     (case client of
        None \<Rightarrow> throws [] TypeError st
      | Some c \<Rightarrow>
          if truthy field
          then finish [ClientCmd c ''hget'' [key, field] (OnHashGet self c key cb)] st
          else finish [ClientCmd c ''hgetall'' [key] (OnHashGet self c key cb)] st)"

definition on_hashget ::
  "nat \<Rightarrow> nat \<Rightarrow> jsval \<Rightarrow> jsval \<Rightarrow> jsval \<Rightarrow> jsval \<Rightarrow> pstate \<Rightarrow> outcome" where
  "on_hashget pool client key cb err replies st =
     (if truthy err
      then call_last [PoolRelease pool client, ConsoleLog ''ERROR: redis error (hget'']
             cb [err, JNull] st
      else call_last [PoolRelease pool client] cb [err, replies] st)"

definition redisBlockingGet ::
  "nat \<Rightarrow> string \<Rightarrow> nat option \<Rightarrow> jsval \<Rightarrow> jsval \<Rightarrow> pstate \<Rightarrow> outcome" where
  "redisBlockingGet self funcName client key cb st =
     (let r = next_cell st;
          st1 = st\<lparr> responded := (responded st)(r := False), next_cell := Suc r \<rparr>
      in case client of
           None \<Rightarrow> throws [] TypeError st1
         | Some c \<Rightarrow>
             finish [ClientCmd c funcName [key, JNum 0] (OnBlocking self funcName c key cb r)]
               st1)"

definition on_blocking ::
  "nat \<Rightarrow> string \<Rightarrow> nat \<Rightarrow> jsval \<Rightarrow> jsval \<Rightarrow> nat \<Rightarrow> jsval \<Rightarrow> jsval \<Rightarrow> pstate \<Rightarrow> outcome"
  where
  "on_blocking pool funcName client key cb r err replies st =
     (let st1 = st\<lparr> responded := (responded st)(r := True) \<rparr>
      in if truthy err
         then call_last [PoolRelease pool client,
                         ConsoleLog (''ERROR redis-connection-pool: ('' @ funcName @ '')'')]
                cb [err, JNull] st1
         else if \<not> truthy replies \<or> typeof (js_index1 replies) = TUndefined
         then call_last [PoolRelease pool client,
                         ConsoleLog ''ERROR redis-connection-pool: got a bad reply: '']
                cb [JStr ''got bad reply from redis'', JArr []] st1
         else call_last [PoolRelease pool client] cb [err, replies] st1)"

definition acq_get ::
  "nat \<Rightarrow> string \<Rightarrow> jsval \<Rightarrow> jsval \<Rightarrow> jsval \<Rightarrow> nat option \<Rightarrow> pstate \<Rightarrow> outcome" where
  "acq_get self funcName key field cb client st =
     (if funcName = ''get'' \<or> funcName = ''hgetall'' then redisGet self funcName client key cb st
      else if funcName = ''blpop'' then redisBlockingGet self ''blpop'' client key cb st
      else if funcName = ''brpop'' then redisBlockingGet self ''brpop'' client key cb st
      else if funcName = ''hget'' then redisHashGet self client key field cb st
      else if funcName = ''hgetall'' then redisHashGet self client key JNull cb st
      else finish [] st)"

subsection \<open>The methods of an instance\<close>

definition expire :: "nat \<Rightarrow> jsval \<Rightarrow> jsval \<Rightarrow> action list" where
  "expire self key data = redisSingle self ''expire'' key data"

definition set_key :: "nat \<Rightarrow> jsval \<Rightarrow> jsval \<Rightarrow> jsval \<Rightarrow> action list" where
  "set_key self key data cb = setFuncs self ''set'' key data cb JUndefined"

definition get_key :: "nat \<Rightarrow> jsval \<Rightarrow> jsval \<Rightarrow> action list" where
  "get_key self key cb = getFuncs self ''get'' key cb JUndefined"

definition del :: "nat \<Rightarrow> jsval \<Rightarrow> action list" where
  "del self key = redisSingle self ''del'' key JUndefined"

definition hset :: "nat \<Rightarrow> jsval \<Rightarrow> jsval \<Rightarrow> jsval \<Rightarrow> jsval \<Rightarrow> action list" where
  "hset self key field data cb = setFuncs self ''hset'' key field data cb"

definition hget :: "nat \<Rightarrow> jsval \<Rightarrow> jsval \<Rightarrow> jsval \<Rightarrow> action list" where
  "hget self key field cb = getFuncs self ''hget'' key field cb"

definition hgetall :: "nat \<Rightarrow> jsval \<Rightarrow> jsval \<Rightarrow> action list" where
  "hgetall self key cb = getFuncs self ''hgetall'' key cb JUndefined"

definition rpush :: "nat \<Rightarrow> jsval \<Rightarrow> jsval \<Rightarrow> jsval \<Rightarrow> action list" where
  "rpush self key data cb = setFuncs self ''rpush'' key data cb JUndefined"

definition lpush :: "nat \<Rightarrow> jsval \<Rightarrow> jsval \<Rightarrow> jsval \<Rightarrow> action list" where
  "lpush self key data cb = setFuncs self ''lpush'' key data cb JUndefined"

definition blpop :: "nat \<Rightarrow> jsval \<Rightarrow> jsval \<Rightarrow> action list" where
  "blpop self key cb = getFuncs self ''blpop'' key cb JUndefined"

definition brpop :: "nat \<Rightarrow> jsval \<Rightarrow> jsval \<Rightarrow> action list" where
  "brpop self key cb = getFuncs self ''brpop'' key cb JUndefined"

subsection \<open>clean\<close>

definition clean :: "nat \<Rightarrow> jsval \<Rightarrow> jsval \<Rightarrow> pstate \<Rightarrow> outcome" where
  "clean self key cb st =
     (let c = next_client st
      in finish [ConsoleLog ''redis-connection-pool: clearing redis key '',
                 CreateClient c None,
                 ClientCmd c ''keys'' [key] (OnKeys self c key cb)]
           (st\<lparr> next_client := Suc c \<rparr>))"

text \<open>The body of \<^verbatim>\<open>keys.forEach\<close>, once for each name.\<close>

definition delete_each :: "nat \<Rightarrow> jsval list \<Rightarrow> action list" where
  "delete_each self names =
     concat (map (\<lambda>name. ConsoleLog ''redis-connection-pool: deleting name '' # del self name)
               names)"

text \<open>
  \<^verbatim>\<open>(keys) && (keys.forEach)\<close> holds of an array, and of an object with a truthy
  property of that name. Only an array's \<^verbatim>\<open>forEach\<close> is modelled; a non-function
  \<^verbatim>\<open>forEach\<close> of an object raises when called.
\<close>

fun has_forEach :: "jsval \<Rightarrow> bool" where
  "has_forEach (JArr xs) = True"
| "has_forEach (JObj ps) = (case map_of ps ''forEach'' of Some v \<Rightarrow> truthy v | None \<Rightarrow> False)"
| "has_forEach v = False"

definition on_keys ::
  "nat \<Rightarrow> nat \<Rightarrow> jsval \<Rightarrow> jsval \<Rightarrow> jsval \<Rightarrow> jsval \<Rightarrow> pstate \<Rightarrow> outcome" where
  "on_keys self client key cb err keys st =
     (let failed = (if truthy err
                    then [ConsoleLog ''ERROR redis-connection-pool: failed clearing redis queue. '']
                    else [])
      in if truthy keys \<and> has_forEach keys then
           (case keys of
              JArr names \<Rightarrow> call_last (ClientQuit client # delete_each self names @ failed) cb [] st
            | JObj ps \<Rightarrow>
                (case map_of ps ''forEach'' of
                   Some (JFun f) \<Rightarrow> throws [ClientQuit client] Unmodelled st
                 | _ \<Rightarrow> throws [ClientQuit client] TypeError st)
            | _ \<Rightarrow> throws [ClientQuit client] Unmodelled st)
         else
           call_last
             ([ClientQuit client,
               ConsoleLog ''ERROR redis-connection-pool: couldnt get keys list on key '']
              @ failed) cb [] st)"

section \<open>The capability probe\<close>

record server_info =
  redis_version :: "string option"
  versions :: "int option list"

text \<open>\<^verbatim>\<open>self.VERSION_ARRAY[0] < 2\<close>: a missing element and \<^verbatim>\<open>NaN\<close> compare false.\<close>

fun major_below_2 :: "int option list \<Rightarrow> bool" where
  "major_below_2 [] = False"
| "major_below_2 (None # vs) = False"
| "major_below_2 (Some n # vs) = (n < 2)"

text \<open>
  \<^verbatim>\<open>redisCheck\<close> returns the promise of a new deferred. Registering the two listeners
  raises nothing, so the \<^verbatim>\<open>catch\<close> block of the source never runs.
\<close>

definition redisCheck :: "nat \<Rightarrow> pstate \<Rightarrow> nat \<times> action list \<times> pstate" where
  "redisCheck self st =
     (let q = next_deferred st; c = next_client st
      in (q,
          [Defer q,
           CreateClient c (Some (PORT (objects st self), HOST (objects st self))),
           ClientOn c ''error'' (CheckError self c q),
           ClientOn c ''ready'' (CheckReady self c q)],
          st\<lparr> next_deferred := Suc q, next_client := Suc c \<rparr>))"

definition check_error :: "nat \<Rightarrow> nat \<Rightarrow> nat \<Rightarrow> jsval \<Rightarrow> pstate \<Rightarrow> outcome" where
  "check_error self client q err st = finish [ClientQuit client, Reject q err] st"

definition js_of_string :: "string option \<Rightarrow> jsval" where
  "js_of_string s = (case s of None \<Rightarrow> JUndefined | Some t \<Rightarrow> JStr t)"

definition check_ready :: "nat \<Rightarrow> nat \<Rightarrow> nat \<Rightarrow> server_info \<Rightarrow> pstate \<Rightarrow> outcome" where
  "check_ready self client q info st =
     (let this = objects st self;
          this1 = this\<lparr> VERSION_STRING := redis_version info,
                        VERSION_ARRAY := Some (versions info) \<rparr>;
          this2 = (if major_below_2 (versions info) then this1\<lparr> BLOCKING_SUPPORT := False \<rparr>
                   else this1)
      in finish [ClientQuit client, Resolve q (js_of_string (redis_version info))]
           (st\<lparr> objects := (objects st)(self := this2) \<rparr>))"

section \<open>Construction and the registry\<close>

text \<open>
  \<open>rnd\<close> is the value of \<^verbatim>\<open>Math.floor((Math.random() * 99999) + 10000)\<close>. The new
  object gets the next address. The promise that \<^verbatim>\<open>redisCheck\<close> returns is dropped: the
  constructor returns \<^verbatim>\<open>this\<close>.
\<close>

definition RedisConnectionPool ::
  "jsval \<Rightarrow> jsval \<Rightarrow> nat \<Rightarrow> pstate \<Rightarrow> exn + (nat \<times> action list \<times> pstate)" where
  "RedisConnectionPool uid cfg rnd st =
     (case get_prop cfg ''DEBUG'' of Inl e \<Rightarrow> Inl e | Inr debug \<Rightarrow>
     (case get_prop cfg ''HOST'' of Inl e \<Rightarrow> Inl e | Inr host \<Rightarrow>
     (case get_prop cfg ''PORT'' of Inl e \<Rightarrow> Inl e | Inr port \<Rightarrow>
     (case get_prop cfg ''MAX_CLIENTS'' of Inl e \<Rightarrow> Inl e | Inr max_clients \<Rightarrow>
     (case get_prop cfg ''PERFORM_CHECKS'' of Inl e \<Rightarrow> Inl e | Inr perform_checks \<Rightarrow>
        (let self = next_object st;
             this = prototype
               \<lparr> UID := (case uid of JStr s \<Rightarrow> s | _ \<Rightarrow> UID prototype @ string_of_nat rnd),
                 DEBUG := (case debug of JBool b \<Rightarrow> b | _ \<Rightarrow> DEBUG prototype),
                 HOST := (case host of JStr s \<Rightarrow> s | _ \<Rightarrow> HOST prototype),
                 PORT := (case port of JNum n \<Rightarrow> n | _ \<Rightarrow> PORT prototype),
                 MAX_CLIENTS :=
                   (case max_clients of JNum n \<Rightarrow> n | _ \<Rightarrow> MAX_CLIENTS prototype),
                 PERFORM_CHECKS :=
                   (case perform_checks of JBool b \<Rightarrow> b | _ \<Rightarrow> PERFORM_CHECKS prototype) \<rparr>;
             st1 = st\<lparr> objects := (objects st)(self := this), next_object := Suc self \<rparr>;
             made = [PoolCreate self (UID this) (MAX_CLIENTS this) (DEBUG this)]
                    @ (if DEBUG this then [SetTimeout 300000 PoolStats] else []);
             (q, probe, st2) = redisCheck self st1
         in Inr (self, made @ probe, st2)))))))"

text \<open>
  Reading a property of an instance by name, as \<^verbatim>\<open>redisConnectionPool.uid\<close> does.
  Property names are case-sensitive, and the constructor and the prototype define the
  upper-case names only; the pool is an object, which \<open>to_key\<close> does not convert.
\<close>

definition instance_prop :: "pool_instance \<Rightarrow> string \<Rightarrow> jsval option" where
  "instance_prop this name =
     (if name = ''UID'' then Some (JStr (UID this))
      else if name = ''DEBUG'' then Some (JBool (DEBUG this))
      else if name = ''HOST'' then Some (JStr (HOST this))
      else if name = ''PORT'' then Some (JNum (PORT this))
      else if name = ''MAX_CLIENTS'' then Some (JNum (MAX_CLIENTS this))
      else if name = ''BLOCKING_SUPPORT'' then Some (JBool (BLOCKING_SUPPORT this))
      else if name = ''PERFORM_CHECKS'' then Some (JBool (PERFORM_CHECKS this))
      else if name = ''VERSION_STRING'' then Some (js_of_string (VERSION_STRING this))
      else if name = ''VERSION_ARRAY'' \<or> name = ''pool'' then None
      else Some JUndefined)"

text \<open>
  The table \<^verbatim>\<open>redisConnectionPools\<close> is a plain object. Of the names it inherits, only
  \<^verbatim>\<open>__proto__\<close> holds an object, and that object is no instance: that identifier is
  outside the model.
\<close>

definition RedisConnectionPoolWrapper ::
  "jsval \<Rightarrow> jsval \<Rightarrow> nat \<Rightarrow> pstate \<Rightarrow> exn + (nat \<times> action list \<times> pstate)" where
  "RedisConnectionPoolWrapper uid cfg rnd st =
     (case to_key uid of
        None \<Rightarrow> Inl Unmodelled
      | Some k \<Rightarrow>
          if k = ''__proto__'' then Inl Unmodelled else
          (case redisConnectionPools st k of
             Some a \<Rightarrow> Inr (a, [], st)
           | None \<Rightarrow>
               (case RedisConnectionPool uid cfg rnd st of
                  Inl e \<Rightarrow> Inl e
                | Inr (a, made, st1) \<Rightarrow>
                    (case instance_prop (objects st1 a) ''uid'' of
                       None \<Rightarrow> Inl Unmodelled
                     | Some v \<Rightarrow>
                         (case to_key v of
                            None \<Rightarrow> Inl Unmodelled
                          | Some k1 \<Rightarrow>
                              Inr (a, made,
                                   st1\<lparr> redisConnectionPools :=
                                          (redisConnectionPools st1)(k1 := Some a) \<rparr>))))))"

text \<open>What a call of the exported function or of \<^verbatim>\<open>check\<close> hands back to its caller:
  an instance, or the promise of a deferred.\<close>

datatype retval = Instance nat | Promise nat

definition check :: "nat \<Rightarrow> pstate \<Rightarrow> retval \<times> action list \<times> pstate" where
  "check self st = (case redisCheck self st of (q, probe, st1) \<Rightarrow> (Promise q, probe, st1))"

definition module_exports ::
  "jsval \<Rightarrow> jsval \<Rightarrow> nat \<Rightarrow> pstate \<Rightarrow> exn + (retval \<times> action list \<times> pstate)" where
  "module_exports uid cfg rnd st =
     map_sum id (\<lambda>(a, made, st1). (Instance a, made, st1))
       (if typeof uid = TObject then RedisConnectionPoolWrapper JUndefined uid rnd st
        else if typeof cfg = TUndefined then RedisConnectionPoolWrapper uid (JObj []) rnd st
        else RedisConnectionPoolWrapper uid cfg rnd st)"

definition returned :: "exn + (retval \<times> action list \<times> pstate) \<Rightarrow> retval option" where
  "returned r = (case r of Inl e \<Rightarrow> None | Inr (v, made, st) \<Rightarrow> Some v)"

definition performed :: "exn + (retval \<times> action list \<times> pstate) \<Rightarrow> action list" where
  "performed r = (case r of Inl e \<Rightarrow> [] | Inr (v, made, st) \<Rightarrow> made)"

definition state_after :: "pstate \<Rightarrow> exn + (retval \<times> action list \<times> pstate) \<Rightarrow> pstate" where
  "state_after st r = (case r of Inl e \<Rightarrow> st | Inr (v, made, st1) \<Rightarrow> st1)"

section \<open>Running a callback\<close>

text \<open>
  What the pool, a store client or a timer passes when it calls a closure back: the
  pool \<^verbatim>\<open>(err, client)\<close>, a store client \<^verbatim>\<open>(err, reply)\<close>, a timer nothing, the
  \<^verbatim>\<open>'error'\<close> event the error, and at \<^verbatim>\<open>'ready'\<close> the client carries its
  \<^verbatim>\<open>server_info\<close>. The timer of \<^verbatim>\<open>poolStats\<close> reads a variable \<^verbatim>\<open>pool\<close> that no
  scope declares.
\<close>

datatype payload =
    Acquired jsval "nat option"
  | Reply jsval jsval
  | Tick
  | Failed jsval
  | Ready server_info

definition fire :: "handler \<Rightarrow> payload \<Rightarrow> pstate \<Rightarrow> outcome" where
  "fire h p st =
     (case (h, p) of
        (AcqSingle pool funcName key val, Acquired err client) \<Rightarrow>
          acq_single pool funcName key val client st
      | (AcqSet pool funcName key field data cb, Acquired err client) \<Rightarrow>
          acq_set pool funcName key field data cb client st
      | (AcqGet self funcName key field cb, Acquired err client) \<Rightarrow>
          acq_get self funcName key field cb client st
      | (OnSingle pool client, Reply err reply) \<Rightarrow> on_single pool client st
      | (OnWrite pool client msg cb, Reply err reply) \<Rightarrow>
          on_write pool client msg cb err reply st
      | (OnGet pool funcName client key cb r, Reply err replies) \<Rightarrow>
          on_get pool funcName client key cb r err replies st
      | (OnHashGet pool client key cb, Reply err replies) \<Rightarrow>
          on_hashget pool client key cb err replies st
      | (OnBlocking pool funcName client key cb r, Reply err replies) \<Rightarrow>
          on_blocking pool funcName client key cb r err replies st
      | (Watchdog pool funcName client key r, Tick) \<Rightarrow>
          watchdog pool funcName client key r st
      | (PoolStats, Tick) \<Rightarrow> throws [] ReferenceError st
      | (OnKeys self client key cb, Reply err keys) \<Rightarrow>
          on_keys self client key cb err keys st
      | (CheckError self client q, Failed err) \<Rightarrow> check_error self client q err st
      | (CheckReady self client q, Ready info) \<Rightarrow> check_ready self client q info st
      | _ \<Rightarrow> throws [] Unmodelled st)"

section \<open>Reading a list of effects\<close>

fun is_timer :: "action \<Rightarrow> bool" where
  "is_timer (SetTimeout ms h) = True"
| "is_timer a = False"

fun is_call :: "action \<Rightarrow> bool" where
  "is_call (Call f args) = True"
| "is_call a = False"

fun is_command :: "action \<Rightarrow> bool" where
  "is_command (ClientCmd c name args h) = True"
| "is_command a = False"

fun is_pool_action :: "action \<Rightarrow> bool" where
  "is_pool_action (PoolCreate p name m l) = True"
| "is_pool_action (PoolAcquire p h) = True"
| "is_pool_action (PoolRelease p c) = True"
| "is_pool_action (PoolDestroy p c) = True"
| "is_pool_action a = False"

fun is_acquire :: "action \<Rightarrow> bool" where
  "is_acquire (PoolAcquire p h) = True"
| "is_acquire a = False"

fun is_pool_create :: "action \<Rightarrow> bool" where
  "is_pool_create (PoolCreate p name m l) = True"
| "is_pool_create a = False"

fun is_probe_ready :: "handler \<Rightarrow> bool" where
  "is_probe_ready (CheckReady self c q) = True"
| "is_probe_ready h = False"

fun deferreds :: "action list \<Rightarrow> nat list" where
  "deferreds [] = []"
| "deferreds (Defer q # as) = q # deferreds as"
| "deferreds (a # as) = deferreds as"

text \<open>The caller can wait for a deferred made during the call when the call returns
  that deferred's promise.\<close>

definition awaitable :: "exn + (retval \<times> action list \<times> pstate) \<Rightarrow> bool" where
  "awaitable r =
     (case returned r of
        Some (Promise q) \<Rightarrow> q \<in> set (deferreds (performed r))
      | _ \<Rightarrow> False)"

section \<open>The pool\<close>

text \<open>
  Modelled from the spec: the Pool. The source obtains it from the generic-pool package
  (\<^verbatim>\<open>require('generic-pool').Pool\<close>), whose code is not part of the repository's source
  file; what follows is the contract of the spec's Pool component. \<open>acquire\<close>
  hands out an idle Connection, or creates one under the capacity bound, or queues the
  caller; queued callers are served longest-waiting first. \<open>release\<close> returns a
  Connection to the idle set and unblocks the longest-waiting caller; it is a no-op on
  a Connection that was destroyed. \<open>destroy\<close> removes a Connection from the tracked
  set, so that a later acquisition may create a replacement; destroying twice is a
  no-op. Connections carry creation-order labels.
\<close>

record pool_state =
  max_connections :: nat
  tracked :: "nat list"
  idle :: "nat list"
  waiting :: "handler list"
  next_label :: nat

text \<open>Modelled from the spec: a Pool with no Connection yet, bounded by
  \<^verbatim>\<open>max_connections\<close> (the pool's constructor is part of generic-pool).\<close>

definition new_pool :: "nat \<Rightarrow> pool_state" where
  "new_pool m = \<lparr> max_connections = m, tracked = [], idle = [], waiting = [], next_label = 0 \<rparr>"

text \<open>Modelled from the spec: serving the longest-waiting caller (generic-pool's internal
  dispensing), when a Connection is idle or may be created under the bound. The result
  names the caller's callback and the Connection it receives.\<close>

definition serve_one :: "pool_state \<Rightarrow> (pool_state \<times> handler \<times> nat) option" where
  "serve_one p =
     (case waiting p of
        [] \<Rightarrow> None
      | h # hs \<Rightarrow>
          (case idle p of
             c # cs \<Rightarrow> Some (p\<lparr> idle := cs, waiting := hs \<rparr>, h, c)
           | [] \<Rightarrow>
               if length (tracked p) < max_connections p
               then Some (p\<lparr> tracked := tracked p @ [next_label p],
                             next_label := Suc (next_label p), waiting := hs \<rparr>,
                          h, next_label p)
               else None))"

text \<open>Modelled from the spec: serving queued callers in FIFO order, at most \<open>n\<close> of
  them (generic-pool's internal dispensing loop).\<close>

fun dispense :: "nat \<Rightarrow> pool_state \<Rightarrow> pool_state \<times> (handler \<times> nat) list" where
  "dispense 0 p = (p, [])"
| "dispense (Suc n) p =
     (case serve_one p of
        None \<Rightarrow> (p, [])
      | Some (p1, d) \<Rightarrow> (case dispense n p1 of (p2, ds) \<Rightarrow> (p2, d # ds)))"

text \<open>Modelled from the spec: \<^verbatim>\<open>Pool.acquire\<close> of generic-pool. The caller joins the
  queue and the queue is served.\<close>

definition pool_acquire :: "handler \<Rightarrow> pool_state \<Rightarrow> pool_state \<times> (handler \<times> nat) list" where
  "pool_acquire h p = dispense (Suc (length (waiting p))) (p\<lparr> waiting := waiting p @ [h] \<rparr>)"

text \<open>Modelled from the spec: \<^verbatim>\<open>Pool.release\<close> of generic-pool. For a Connection that
  was destroyed the spec allows a no-op or an error; the model takes the no-op, which is
  what the idempotency requirement on a destroyed Connection asks for. A Connection that
  is idle already stays in the idle set once.\<close>

definition pool_release :: "nat \<Rightarrow> pool_state \<Rightarrow> pool_state \<times> (handler \<times> nat) list" where
  "pool_release c p =
     (if c \<in> set (tracked p) \<and> c \<notin> set (idle p)
      then dispense (length (waiting p)) (p\<lparr> idle := idle p @ [c] \<rparr>)
      else (p, []))"

text \<open>Modelled from the spec: \<^verbatim>\<open>Pool.destroy\<close> of generic-pool. The Connection leaves
  the tracked set, which frees a place for a replacement; a waiting caller is served
  with one.\<close>

definition pool_destroy :: "nat \<Rightarrow> pool_state \<Rightarrow> pool_state \<times> (handler \<times> nat) list" where
  "pool_destroy c p =
     (if c \<in> set (tracked p)
      then dispense (length (waiting p))
             (p\<lparr> tracked := removeAll c (tracked p), idle := removeAll c (idle p) \<rparr>)
      else (p, []))"

text \<open>The pool of instance \<open>self\<close> under the calls that a list of effects makes on it.\<close>

fun pool_step :: "nat \<Rightarrow> action \<Rightarrow> pool_state \<Rightarrow> pool_state \<times> (handler \<times> nat) list" where
  "pool_step self (PoolAcquire p h) ps = (if p = self then pool_acquire h ps else (ps, []))"
| "pool_step self (PoolRelease p c) ps = (if p = self then pool_release c ps else (ps, []))"
| "pool_step self (PoolDestroy p c) ps = (if p = self then pool_destroy c ps else (ps, []))"
| "pool_step self a ps = (ps, [])"

fun pool_run :: "nat \<Rightarrow> action list \<Rightarrow> pool_state \<Rightarrow> pool_state \<times> (handler \<times> nat) list" where
  "pool_run self [] ps = (ps, [])"
| "pool_run self (a # as) ps =
     (case pool_step self a ps of
        (ps1, ds) \<Rightarrow> (case pool_run self as ps1 of (ps2, es) \<Rightarrow> (ps2, ds @ es)))"

text \<open>A Connection that left the pool: not tracked, not idle, its label already used.\<close>

definition gone :: "nat \<Rightarrow> pool_state \<Rightarrow> bool" where
  "gone c p = (c \<notin> set (tracked p) \<and> c \<notin> set (idle p) \<and> c < next_label p)"

text \<open>A Connection checked out to a command.\<close>

definition in_use :: "nat \<Rightarrow> pool_state \<Rightarrow> bool" where
  "in_use c p = (c \<in> set (tracked p) \<and> c \<notin> set (idle p) \<and> c < next_label p)"

section \<open>Facts about single steps\<close>

lemmas run_defs = fire_def acq_single_def acq_set_def acq_get_def on_single_def on_write_def
  on_get_def on_hashget_def on_blocking_def watchdog_def on_keys_def check_error_def
  check_ready_def redisGet_def redisHashGet_def redisBlockingGet_def finish_def throws_def

lemma acts_call_last:
  "acts (call_last as cb args st) = (if typeof cb = TFunction then as @ [Call cb args] else as)"
  by (simp add: call_last_def finish_def throws_def)

lemma post_call_last: "post (call_last as cb args st) = st"
  by (simp add: call_last_def finish_def throws_def)

lemma uncaught_call_last:
  "uncaught (call_last as cb args st) = (if typeof cb = TFunction then None else Some TypeError)"
  by (simp add: call_last_def finish_def throws_def)

lemma falsy_not_function: "\<not> truthy v \<Longrightarrow> typeof v \<noteq> TFunction"
  by (cases v) simp_all

lemma typeof_undefined: "(typeof v = TUndefined) = (v = JUndefined)"
  by (cases v) simp_all

lemma timers_delete_each: "filter is_timer (delete_each self names) = []"
  by (induction names) (simp_all add: delete_each_def del_def redisSingle_def)

lemma calls_delete_each: "filter is_call (delete_each self names) = []"
  by (induction names) (simp_all add: delete_each_def del_def redisSingle_def)

lemma acquires_delete_each:
  "filter is_acquire (delete_each self names)
     = map (\<lambda>name. PoolAcquire self (AcqSingle self ''del'' name JUndefined)) names"
  by (induction names) (simp_all add: delete_each_def del_def redisSingle_def)

section \<open>The registry\<close>

lemmas construct_defs = module_exports_def RedisConnectionPoolWrapper_def
  RedisConnectionPool_def redisCheck_def instance_prop_def prototype_def
  returned_def performed_def state_after_def

text \<open>
  C1. Calling the exported constructor twice with the same identifier is meant to return
  the instance made by the first call, with the first configuration, and to make no
  second pool. The wrapper, however, files every new instance under the value of its
  \<^verbatim>\<open>uid\<close> property, which no instance has (the constructor sets \<^verbatim>\<open>UID\<close>), so the
  entry goes under the key \<^verbatim>\<open>undefined\<close> and the identifier is never found again. With
  the identifier \<^verbatim>\<open>x\<close> and two configurations that differ in \<^verbatim>\<open>HOST\<close>, the second
  call makes a second instance at a new address, with a pool of its own and the second
  host.
\<close>

theorem same_identifier_second_call_builds_new_instance:
  "(let cfgA = JObj [(''HOST'', JStr ''a.example'')];
        cfgB = JObj [(''HOST'', JStr ''b.example'')];
        r1 = module_exports (JStr ''x'') cfgA 10000 initial;
        st1 = state_after initial r1;
        r2 = module_exports (JStr ''x'') cfgB 10000 st1;
        st2 = state_after st1 r2
    in returned r1 = Some (Instance 0) \<and> returned r2 = Some (Instance 1)
     \<and> HOST (objects st2 0) = ''a.example'' \<and> HOST (objects st2 1) = ''b.example''
     \<and> filter is_pool_create (performed r2) = [PoolCreate 1 ''x'' 30 False]
     \<and> redisConnectionPools st1 ''x'' = None
     \<and> redisConnectionPools st1 ''undefined'' = Some 0
     \<and> redisConnectionPools st2 ''undefined'' = Some 1)"
  by (simp add: construct_defs initial_def Let_def)

section \<open>The watchdog\<close>

lemma timers_of_fire:
  "filter is_timer (acts (fire h p st))
     = (case (h, p) of
          (AcqGet self funcName key field cb, Acquired e (Some c)) \<Rightarrow>
            if funcName = ''get'' \<or> funcName = ''hgetall''
            then [SetTimeout 5000 (Watchdog self funcName c key (next_cell st))]
            else []
        | _ \<Rightarrow> [])"
  by (cases h; cases p)
     (auto simp add: run_defs acts_call_last timers_delete_each Let_def
           split: option.splits jsval.splits)

text \<open>
  C2. Of all the callbacks of the dispatcher, only the acquire callback of
  \<^verbatim>\<open>_getFuncs\<close> starts a timer, and only when the command name is \<^verbatim>\<open>get\<close> or
  \<^verbatim>\<open>hgetall\<close> and a Connection was acquired: one timer of 5000 ms, the watchdog of that
  command's Connection. The names \<^verbatim>\<open>blpop\<close>, \<^verbatim>\<open>brpop\<close>, \<^verbatim>\<open>hget\<close>, and the callbacks
  of \<^verbatim>\<open>_setFuncs\<close> and \<^verbatim>\<open>redisSingle\<close> start none. When the watchdog fires and the reply
  callback has not run, it passes the Connection to the pool's \<^verbatim>\<open>destroy\<close> (and not to
  \<^verbatim>\<open>release\<close>); when the reply callback has run, which sets \<^verbatim>\<open>responded\<close>, it does
  nothing.
\<close>

theorem watchdog_only_for_get_and_hgetall:
  "filter is_timer (acts (fire h p st))
     = (case (h, p) of
          (AcqGet self funcName key field cb, Acquired e (Some c)) \<Rightarrow>
            if funcName = ''get'' \<or> funcName = ''hgetall''
            then [SetTimeout 5000 (Watchdog self funcName c key (next_cell st))]
            else []
        | _ \<Rightarrow> [])
   \<and> get_key pool k kont = getFuncs pool ''get'' k kont JUndefined
   \<and> hgetall pool k kont = getFuncs pool ''hgetall'' k kont JUndefined
   \<and> filter is_command (acts (fire (AcqGet pool ''get'' k fld kont) (Acquired ev (Some conn)) st))
       = [ClientCmd conn ''get'' [k] (OnGet pool ''get'' conn k kont (next_cell st))]
   \<and> filter is_command
        (acts (fire (AcqGet pool ''hgetall'' k fld kont) (Acquired ev (Some conn)) st))
       = [ClientCmd conn ''hgetall'' [k] (OnGet pool ''hgetall'' conn k kont (next_cell st))]
   \<and> fire (Watchdog pool name conn k r) Tick st
       = (if responded st r then finish [] st
          else finish [ConsoleLog (''ERROR: redis.'' @ name
                         @ '' never returned (5s), destroying connection. ''),
                       PoolDestroy pool conn] st)
   \<and> responded (post (fire (OnGet pool name conn k kont r) (Reply err replies) st)) r"
  using timers_of_fire[of h p st]
  by (simp add: get_key_def hgetall_def fire_def acq_get_def redisGet_def watchdog_def
        on_get_def post_call_last finish_def Let_def)

theorem watchdog_only_for_get_and_hgetall_witness:
  "filter is_timer
     (acts (fire (AcqGet 0 ''get'' (JStr ''k'') JNull (JFun 1)) (Acquired JNull (Some 3)) initial))
     = [SetTimeout 5000 (Watchdog 0 ''get'' 3 (JStr ''k'') (next_cell initial))]
   \<and> fire (Watchdog 0 ''get'' 3 (JStr ''k'') 0) Tick initial
       = finish [ConsoleLog (''ERROR: redis.'' @ ''get''
                   @ '' never returned (5s), destroying connection. ''),
                 PoolDestroy 0 3] initial"
  using watchdog_only_for_get_and_hgetall
          [where h = "AcqGet 0 ''get'' (JStr ''k'') JNull (JFun 1)"
             and p = "Acquired JNull (Some 3)" and st = initial and pool = 0 and name = "''get''"
             and conn = 3 and k = "JStr ''k''" and r = 0]
  by (simp add: initial_def)

section \<open>Blocking pops\<close>

text \<open>
  C3. For \<^verbatim>\<open>blpop\<close> and \<^verbatim>\<open>brpop\<close> with a continuation: the command is issued with
  the key and a wait of 0. A reply of two elements whose second is defined reaches the
  continuation as \<^verbatim>\<open>(null, reply)\<close>. When there is no error and the reply is absent
  (\<^verbatim>\<open>undefined\<close> or \<^verbatim>\<open>null\<close>) or has no second element, the continuation receives the
  text \<^verbatim>\<open>got bad reply from redis\<close> and an empty array, and nothing is thrown. In both
  cases the Connection is released first.
\<close>

theorem blocking_pop_reply:
  assumes "funcName = ''blpop'' \<or> funcName = ''brpop''" and "typeof cb = TFunction"
  shows "blpop self key cb = [PoolAcquire self (AcqGet self ''blpop'' key JNull cb)]
   \<and> brpop self key cb = [PoolAcquire self (AcqGet self ''brpop'' key JNull cb)]
   \<and> acts (fire (AcqGet self funcName key field cb) (Acquired e (Some c)) st)
       = [ClientCmd c funcName [key, JNum 0] (OnBlocking self funcName c key cb (next_cell st))]
   \<and> (v \<noteq> JUndefined \<longrightarrow>
        fire (OnBlocking self funcName c key cb r) (Reply JNull (JArr [k, v])) st
          = finish [PoolRelease self c, Call cb [JNull, JArr [k, v]]]
              (st\<lparr> responded := (responded st)(r := True) \<rparr>))
   \<and> (\<not> truthy err \<and> (reply = JUndefined \<or> reply = JNull \<or> reply = JArr [] \<or> reply = JArr [k])
        \<longrightarrow>
        fire (OnBlocking self funcName c key cb r) (Reply err reply) st
          = finish [PoolRelease self c,
                    ConsoleLog ''ERROR redis-connection-pool: got a bad reply: '',
                    Call cb [JStr ''got bad reply from redis'', JArr []]]
              (st\<lparr> responded := (responded st)(r := True) \<rparr>))"
  using assms
  by (auto simp add: blpop_def brpop_def getFuncs_def fire_def acq_get_def redisBlockingGet_def
        on_blocking_def call_last_def finish_def Let_def typeof_undefined)

theorem blocking_pop_reply_witness:
  "fire (OnBlocking 0 ''blpop'' 3 (JStr ''q'') (JFun 1) 0)
        (Reply JNull (JArr [JStr ''q'', JStr ''value1''])) initial
     = finish [PoolRelease 0 3, Call (JFun 1) [JNull, JArr [JStr ''q'', JStr ''value1'']]]
         (initial\<lparr> responded := (responded initial)(0 := True) \<rparr>)
   \<and> fire (OnBlocking 0 ''blpop'' 3 (JStr ''q'') (JFun 1) 0) (Reply JNull (JArr [JStr ''q'']))
        initial
     = finish [PoolRelease 0 3, ConsoleLog ''ERROR redis-connection-pool: got a bad reply: '',
               Call (JFun 1) [JStr ''got bad reply from redis'', JArr []]]
         (initial\<lparr> responded := (responded initial)(0 := True) \<rparr>)"
  using blocking_pop_reply
          [where funcName = "''blpop''" and cb = "JFun 1" and self = 0 and c = 3
             and key = "JStr ''q''" and r = 0 and st = initial and k = "JStr ''q''"
             and v = "JStr ''value1''" and err = JNull and reply = "JArr [JStr ''q'']"]
  by simp

section \<open>A reply that arrives after the watchdog\<close>

lemma serve_one_gone:
  assumes "gone c p" and "serve_one p = Some (p1, h, c1)"
  shows "gone c p1 \<and> c1 \<noteq> c"
  using assms
  by (auto simp add: serve_one_def gone_def split: list.splits if_splits)

lemma dispense_gone:
  "gone c p \<Longrightarrow> dispense n p = (p1, ds) \<Longrightarrow> gone c p1 \<and> c \<notin> set (map snd ds)"
proof (induction n arbitrary: p p1 ds)
  case 0
  then show ?case by simp
next
  case (Suc n)
  show ?case
  proof (cases "serve_one p")
    case None
    with Suc.prems show ?thesis by simp
  next
    case (Some t)
    obtain q h c1 where t: "t = (q, h, c1)" by (cases t)
    obtain q2 es where d: "dispense n q = (q2, es)" by (cases "dispense n q")
    from Suc.prems(1) Some t have g: "gone c q" and ne: "c1 \<noteq> c"
      using serve_one_gone by blast+
    from Suc.IH[OF g d] have "gone c q2" and "c \<notin> set (map snd es)" by simp_all
    with Suc.prems(2) Some t d ne show ?thesis by auto
  qed
qed

lemma pool_acquire_gone:
  assumes "gone c p" and "pool_acquire h p = (p1, ds)"
  shows "gone c p1 \<and> c \<notin> set (map snd ds)"
proof -
  have "gone c (p\<lparr> waiting := waiting p @ [h] \<rparr>)" using assms(1) by (simp add: gone_def)
  then show ?thesis using assms(2) unfolding pool_acquire_def by (rule dispense_gone)
qed

lemma pool_release_gone:
  assumes "gone c p" and "pool_release c1 p = (p1, ds)"
  shows "gone c p1 \<and> c \<notin> set (map snd ds)"
proof (cases "c1 \<in> set (tracked p) \<and> c1 \<notin> set (idle p)")
  case True
  then have "gone c (p\<lparr> idle := idle p @ [c1] \<rparr>)" using assms(1) by (auto simp add: gone_def)
  moreover have "dispense (length (waiting p)) (p\<lparr> idle := idle p @ [c1] \<rparr>) = (p1, ds)"
    using assms(2) True by (simp add: pool_release_def)
  ultimately show ?thesis by (rule dispense_gone)
next
  case False
  then show ?thesis using assms by (auto simp add: pool_release_def)
qed

lemma pool_destroy_gone:
  assumes "gone c p" and "pool_destroy c1 p = (p1, ds)"
  shows "gone c p1 \<and> c \<notin> set (map snd ds)"
proof (cases "c1 \<in> set (tracked p)")
  case True
  let ?q = "p\<lparr> tracked := removeAll c1 (tracked p), idle := removeAll c1 (idle p) \<rparr>"
  have "gone c ?q" using assms(1) by (auto simp add: gone_def)
  moreover have "dispense (length (waiting p)) ?q = (p1, ds)"
    using assms(2) True by (simp add: pool_destroy_def)
  ultimately show ?thesis by (rule dispense_gone)
next
  case False
  then show ?thesis using assms by (auto simp add: pool_destroy_def)
qed

lemma pool_step_gone:
  assumes "gone c p" and "pool_step self a p = (p1, ds)"
  shows "gone c p1 \<and> c \<notin> set (map snd ds)"
proof (cases a)
  case (PoolAcquire x h)
  show ?thesis
  proof (cases "x = self")
    case True
    with assms(2) PoolAcquire have "pool_acquire h p = (p1, ds)" by simp
    with assms(1) show ?thesis by (rule pool_acquire_gone)
  next
    case False
    with assms PoolAcquire show ?thesis by simp
  qed
next
  case (PoolRelease x c1)
  show ?thesis
  proof (cases "x = self")
    case True
    with assms(2) PoolRelease have "pool_release c1 p = (p1, ds)" by simp
    with assms(1) show ?thesis by (rule pool_release_gone)
  next
    case False
    with assms PoolRelease show ?thesis by simp
  qed
next
  case (PoolDestroy x c1)
  show ?thesis
  proof (cases "x = self")
    case True
    with assms(2) PoolDestroy have "pool_destroy c1 p = (p1, ds)" by simp
    with assms(1) show ?thesis by (rule pool_destroy_gone)
  next
    case False
    with assms PoolDestroy show ?thesis by simp
  qed
qed (use assms in simp_all)

lemma pool_run_gone:
  "gone c p \<Longrightarrow> pool_run self as p = (p1, ds) \<Longrightarrow> gone c p1 \<and> c \<notin> set (map snd ds)"
proof (induction as arbitrary: p p1 ds)
  case Nil
  then show ?case by simp
next
  case (Cons a as)
  obtain q es where s: "pool_step self a p = (q, es)" by (cases "pool_step self a p")
  obtain q2 fs where r: "pool_run self as q = (q2, fs)" by (cases "pool_run self as q")
  from pool_step_gone[OF Cons.prems(1) s] have g: "gone c q" and e: "c \<notin> set (map snd es)"
    by simp_all
  from Cons.IH[OF g r] have "gone c q2" and f: "c \<notin> set (map snd fs)" by simp_all
  moreover have "p1 = q2" and "ds = es @ fs" using Cons.prems(2) s r by simp_all
  ultimately show ?case using e by simp
qed

text \<open>In a pool that started empty, every tracked label is below the next one, so a
  Connection that a command holds satisfies the last part of \<open>in_use\<close>.\<close>

lemma serve_one_labels:
  assumes "\<forall>x \<in> set (tracked p). x < next_label p" and "serve_one p = Some (p1, h, c1)"
  shows "\<forall>x \<in> set (tracked p1). x < next_label p1"
  using assms
  by (auto simp add: serve_one_def less_Suc_eq split: list.splits if_splits)

lemma dispense_labels:
  "\<forall>x \<in> set (tracked p). x < next_label p \<Longrightarrow> dispense n p = (p1, ds) \<Longrightarrow>
   \<forall>x \<in> set (tracked p1). x < next_label p1"
proof (induction n arbitrary: p p1 ds)
  case 0
  then show ?case by simp
next
  case (Suc n)
  show ?case
  proof (cases "serve_one p")
    case None
    with Suc.prems show ?thesis by simp
  next
    case (Some t)
    obtain q h c1 where t: "t = (q, h, c1)" by (cases t)
    obtain q2 es where d: "dispense n q = (q2, es)" by (cases "dispense n q")
    from Suc.prems(1) Some t have "\<forall>x \<in> set (tracked q). x < next_label q"
      using serve_one_labels by blast
    from Suc.IH[OF this d] Suc.prems(2) Some t d show ?thesis by simp
  qed
qed

lemma pool_step_labels:
  assumes "\<forall>x \<in> set (tracked p). x < next_label p" and "pool_step self a p = (p1, ds)"
  shows "\<forall>x \<in> set (tracked p1). x < next_label p1"
proof (cases a)
  case (PoolAcquire x h)
  have "\<forall>y \<in> set (tracked (p\<lparr> waiting := waiting p @ [h] \<rparr>)).
          y < next_label (p\<lparr> waiting := waiting p @ [h] \<rparr>)"
    using assms(1) by simp
  from dispense_labels[OF this] assms PoolAcquire show ?thesis
    by (cases "x = self") (simp_all add: pool_acquire_def del: dispense.simps)
next
  case (PoolRelease x c1)
  have "\<forall>y \<in> set (tracked (p\<lparr> idle := idle p @ [c1] \<rparr>)).
          y < next_label (p\<lparr> idle := idle p @ [c1] \<rparr>)"
    using assms(1) by simp
  from dispense_labels[OF this] assms PoolRelease show ?thesis
    by (cases "x = self") (auto simp add: pool_release_def split: if_splits)
next
  case (PoolDestroy x c1)
  let ?q = "p\<lparr> tracked := removeAll c1 (tracked p), idle := removeAll c1 (idle p) \<rparr>"
  have "\<forall>y \<in> set (tracked ?q). y < next_label ?q" using assms(1) by simp
  from dispense_labels[OF this] assms PoolDestroy show ?thesis
    by (cases "x = self") (auto simp add: pool_destroy_def split: if_splits)
qed (use assms in simp_all)

lemma pool_run_labels:
  "\<forall>x \<in> set (tracked p). x < next_label p \<Longrightarrow> pool_run self as p = (p1, ds) \<Longrightarrow>
   \<forall>x \<in> set (tracked p1). x < next_label p1"
proof (induction as arbitrary: p p1 ds)
  case Nil
  then show ?case by simp
next
  case (Cons a as)
  obtain q es where s: "pool_step self a p = (q, es)" by (cases "pool_step self a p")
  obtain q2 fs where r: "pool_run self as q = (q2, fs)" by (cases "pool_run self as q")
  from pool_step_labels[OF Cons.prems(1) s] have "\<forall>x \<in> set (tracked q). x < next_label q" .
  from Cons.IH[OF this r] Cons.prems(2) s r show ?case by simp
qed

lemma started_empty_labels:
  "pool_run self as (new_pool m) = (p, ds) \<Longrightarrow> \<forall>x \<in> set (tracked p). x < next_label p"
  by (rule pool_run_labels[of "new_pool m"]) (simp_all add: new_pool_def)

lemma destroy_in_use_gone:
  assumes "in_use c p"
  shows "gone c (fst (pool_destroy c p))"
proof -
  let ?q = "p\<lparr> tracked := removeAll c (tracked p), idle := removeAll c (idle p) \<rparr>"
  have g: "gone c ?q" using assms by (simp add: gone_def in_use_def)
  obtain q2 es where d: "dispense (length (waiting p)) ?q = (q2, es)"
    by (cases "dispense (length (waiting p)) ?q")
  from dispense_gone[OF g d] have "gone c q2" by simp
  with assms d show ?thesis by (simp add: pool_destroy_def in_use_def)
qed

lemma release_gone: "gone c p \<Longrightarrow> pool_release c p = (p, [])"
  by (simp add: pool_release_def gone_def)

text \<open>
  C4. A GET or HGETALL holds Connection \<open>c\<close>; the watchdog fires before the reply and
  destroys \<open>c\<close>; then the reply callback fires. It raises nothing and calls the
  continuation once. It does call \<^verbatim>\<open>release\<close> on \<open>c\<close>: the source has no guard of its
  own, and it is the pool that ignores the release of a destroyed Connection. So the
  pool is unchanged by the late reply, \<open>c\<close> is neither idle nor tracked afterwards, and
  whatever is asked of the pool later (\<open>later\<close> is any list of calls), no acquisition
  receives \<open>c\<close>.
\<close>

theorem late_reply_after_watchdog:
  assumes "in_use c ps" and "typeof cb = TFunction" and "\<not> responded st r"
  shows "(let out1 = fire (Watchdog self funcName c key r) Tick st;
              ps1 = fst (pool_run self (acts out1) ps);
              out2 = fire (OnGet self funcName c key cb r) (Reply err replies) (post out1);
              ps2 = fst (pool_run self (acts out2) ps1)
          in acts out1 = [ConsoleLog (''ERROR: redis.'' @ funcName
                            @ '' never returned (5s), destroying connection. ''),
                          PoolDestroy self c]
           \<and> uncaught out2 = None
           \<and> hd (acts out2) = PoolRelease self c
           \<and> filter is_call (acts out2) = [Call cb [err, if truthy err then JNull else replies]]
           \<and> pool_run self (acts out2) ps1 = (ps1, [])
           \<and> c \<notin> set (idle ps2) \<and> c \<notin> set (tracked ps2)
           \<and> c \<notin> set (map snd (snd (pool_run self later ps2))))"
proof -
  let ?out1 = "fire (Watchdog self funcName c key r) Tick st"
  have a1: "acts ?out1 = [ConsoleLog (''ERROR: redis.'' @ funcName
                            @ '' never returned (5s), destroying connection. ''),
                          PoolDestroy self c]"
    using assms(3) by (simp add: fire_def watchdog_def finish_def)
  have p1: "post ?out1 = st"
    using assms(3) by (simp add: fire_def watchdog_def finish_def)
  let ?ps1 = "fst (pool_run self (acts ?out1) ps)"
  have ps1: "?ps1 = fst (pool_destroy c ps)"
    by (simp add: a1 split: prod.splits)
  have g1: "gone c ?ps1" unfolding ps1 using assms(1) by (rule destroy_in_use_gone)
  let ?out2 = "fire (OnGet self funcName c key cb r) (Reply err replies) (post ?out1)"
  have a2: "acts ?out2 = (if truthy err
              then [PoolRelease self c, ConsoleLog ''ERROR: redis error'', Call cb [err, JNull]]
              else [PoolRelease self c, Call cb [err, replies]])"
    using assms(2) by (simp add: fire_def on_get_def acts_call_last Let_def)
  have u2: "uncaught ?out2 = None"
    using assms(2) by (simp add: fire_def on_get_def uncaught_call_last Let_def)
  have r2: "pool_run self (acts ?out2) ?ps1 = (?ps1, [])"
    using release_gone[OF g1] by (simp add: a2)
  have c2: "filter is_call (acts ?out2) = [Call cb [err, if truthy err then JNull else replies]]"
    by (simp add: a2)
  have h2: "hd (acts ?out2) = PoolRelease self c"
    by (simp add: a2)
  obtain q ds where l: "pool_run self later ?ps1 = (q, ds)"
    by (cases "pool_run self later ?ps1")
  from pool_run_gone[OF g1 l] have n: "c \<notin> set (map snd ds)" by simp
  have i: "c \<notin> set (idle ?ps1)" and t: "c \<notin> set (tracked ?ps1)"
    using g1 by (simp_all add: gone_def)
  show ?thesis
    unfolding Let_def using a1 u2 h2 c2 r2 i t n l by simp
qed

theorem late_reply_after_watchdog_witness:
  "in_use 0 \<lparr> max_connections = 1, tracked = [0], idle = [], waiting = [], next_label = 1 \<rparr>
   \<and> \<not> responded initial 0
   \<and> (let out1 = fire (Watchdog 0 ''get'' 0 (JStr ''k'') 0) Tick initial;
          ps1 = fst (pool_run 0 (acts out1)
                  \<lparr> max_connections = 1, tracked = [0], idle = [], waiting = [],
                    next_label = 1 \<rparr>);
          out2 = fire (OnGet 0 ''get'' 0 (JStr ''k'') (JFun 1) 0) (Reply JNull (JStr ''v''))
                   (post out1);
          ps2 = fst (pool_run 0 (acts out2) ps1)
      in uncaught out2 = None
       \<and> pool_run 0 (acts out2) ps1 = (ps1, [])
       \<and> 0 \<notin> set (idle ps2) \<and> 0 \<notin> set (tracked ps2)
       \<and> 0 \<notin> set (map snd (snd (pool_run 0 [PoolAcquire 0 (AcqSingle 0 ''del'' (JStr ''k'')
                                                           JUndefined)] ps2))))"
proof -
  let ?ps = "\<lparr> max_connections = 1, tracked = [0], idle = [], waiting = [], next_label = 1 \<rparr>"
  have a: "in_use 0 ?ps" by (simp add: in_use_def)
  have b: "typeof (JFun 1) = TFunction" by simp
  have c: "\<not> responded initial 0" by (simp add: initial_def)
  note t = late_reply_after_watchdog
         [OF a b c, where self = 0 and funcName = "''get''" and key = "JStr ''k''"
            and err = JNull and replies = "JStr ''v''"
            and later = "[PoolAcquire 0 (AcqSingle 0 ''del'' (JStr ''k'') JUndefined)]",
          unfolded Let_def]
  show ?thesis unfolding Let_def using a c t by blast
qed

section \<open>The capability probe and construction\<close>

lemma returned_instance:
  "returned (map_sum id (\<lambda>(a, made, st1). (Instance a, made, st1)) x) \<noteq> Some (Promise q)"
  by (cases x) (auto simp add: returned_def)

lemma module_exports_not_awaitable: "\<not> awaitable (module_exports uid cfg rnd st)"
proof -
  obtain x where "module_exports uid cfg rnd st
                   = map_sum id (\<lambda>(a, made, st1). (Instance a, made, st1)) x"
    by (simp add: module_exports_def)
  then show ?thesis
    using returned_instance[of x]
    by (auto simp add: awaitable_def split: option.splits retval.splits)
qed

text \<open>
  C5. The probe makes a client of its own and never calls the pool. On the client's
  \<^verbatim>\<open>'error'\<close> event it quits the client and rejects its deferred with the error; at
  \<^verbatim>\<open>'ready'\<close> it quits the client and resolves the deferred with the version text.
  Neither raises. The promise reaches a caller of \<^verbatim>\<open>check\<close>, which returns it. The
  constructor drops it: the exported function returns the instance (or raises) and
  never the promise of a deferred made during the call, so nothing that waits for a
  construction sees the rejection.
\<close>

theorem probe_quits_its_client_and_settles_its_promise:
  "(let q = next_deferred st; c = next_client st
    in redisCheck self st
         = (q,
            [Defer q, CreateClient c (Some (PORT (objects st self), HOST (objects st self))),
             ClientOn c ''error'' (CheckError self c q),
             ClientOn c ''ready'' (CheckReady self c q)],
            st\<lparr> next_deferred := Suc q, next_client := Suc c \<rparr>))
   \<and> filter is_pool_action (fst (snd (redisCheck self st))) = []
   \<and> fire (CheckError self conn prom) (Failed err) st = finish [ClientQuit conn, Reject prom err] st
   \<and> acts (fire (CheckReady self conn prom) (Ready info) st)
       = [ClientQuit conn, Resolve prom (js_of_string (redis_version info))]
   \<and> uncaught (fire (CheckReady self conn prom) (Ready info) st) = None
   \<and> awaitable (Inr (check self st))
   \<and> \<not> awaitable (module_exports uid cfg rnd st)"
  using module_exports_not_awaitable[of uid cfg rnd st]
  by (simp add: redisCheck_def check_def Let_def fire_def check_error_def check_ready_def
        finish_def awaitable_def returned_def performed_def)

theorem probe_quits_its_client_and_settles_its_promise_witness:
  "fire (CheckError 0 0 0) (Failed (JStr ''ECONNREFUSED'')) initial
     = finish [ClientQuit 0, Reject 0 (JStr ''ECONNREFUSED'')] initial
   \<and> awaitable (Inr (check 0 initial))
   \<and> \<not> awaitable (module_exports (JStr ''x'') (JObj []) 10000 initial)"
  using probe_quits_its_client_and_settles_its_promise
          [where self = 0 and conn = 0 and prom = 0 and err = "JStr ''ECONNREFUSED''"
             and st = initial and uid = "JStr ''x''" and cfg = "JObj []" and rnd = 10000]
  by simp

text \<open>Read as "a probe that cannot connect is reported to whoever waits for the
  construction", the statement fails. Constructing \<^verbatim>\<open>x\<close> with an empty configuration makes deferred 0
  and returns instance 0, not that deferred's promise; the \<^verbatim>\<open>'error'\<close> event then
  rejects deferred 0, which no caller holds.\<close>

theorem construction_drops_the_probe_promise:
  "(let r = module_exports (JStr ''x'') (JObj []) 10000 initial;
        st1 = state_after initial r
    in returned r = Some (Instance 0) \<and> deferreds (performed r) = [0] \<and> \<not> awaitable r
     \<and> acts (fire (CheckError 0 0 0) (Failed (JStr ''ECONNREFUSED'')) st1)
         = [ClientQuit 0, Reject 0 (JStr ''ECONNREFUSED'')])"
  by (simp add: construct_defs initial_def Let_def awaitable_def fire_def check_error_def
        finish_def)

lemma fire_keeps_objects: "\<not> is_probe_ready h \<Longrightarrow> objects (post (fire h p st)) = objects st"
  by (cases h; cases p)
     (auto simp add: run_defs post_call_last Let_def split: option.splits jsval.splits)

lemma constructed_supports_blocking:
  "RedisConnectionPool uid cfg rnd st = Inr (a, made, st2) \<Longrightarrow> BLOCKING_SUPPORT (objects st2 a)"
  by (auto simp add: RedisConnectionPool_def redisCheck_def prototype_def Let_def
        split: sum.splits)

text \<open>
  C6. At \<^verbatim>\<open>'ready'\<close> the probe stores the version text and the version array on the
  instance. When the first element of the array is a number below 2 it sets
  \<^verbatim>\<open>BLOCKING_SUPPORT\<close> to false; otherwise it leaves the flag as it was, which on an
  instance just constructed is true. No other callback (the callbacks of every command,
  the watchdog, the probe's error listener) changes any field of any instance.
\<close>

theorem probe_records_version_and_blocking_support:
  "(let st1 = post (fire (CheckReady self c q) (Ready info) st)
    in BLOCKING_SUPPORT (objects st1 self)
         = (if major_below_2 (versions info) then False else BLOCKING_SUPPORT (objects st self))
     \<and> VERSION_STRING (objects st1 self) = redis_version info
     \<and> VERSION_ARRAY (objects st1 self) = Some (versions info))
   \<and> major_below_2 (Some major # rest) = (major < 2)
   \<and> (case RedisConnectionPool uid cfg rnd st of
         Inl ex \<Rightarrow> True
       | Inr (a, made, st2) \<Rightarrow>
           BLOCKING_SUPPORT (objects (post (fire (CheckReady a c q) (Ready info) st2)) a)
             = (\<not> major_below_2 (versions info)))
   \<and> (\<not> is_probe_ready h \<longrightarrow> objects (post (fire h p st)) = objects st)"
  using fire_keeps_objects[of h p st] constructed_supports_blocking[of uid cfg rnd st]
  by (auto simp add: fire_def check_ready_def finish_def Let_def split: sum.splits)

theorem probe_records_version_and_blocking_support_witness:
  "BLOCKING_SUPPORT
     (objects (post (fire (CheckReady 0 0 0)
                       (Ready \<lparr> redis_version = Some ''1.2.6'',
                                versions = [Some 1, Some 2, Some 6] \<rparr>) initial)) 0) = False
   \<and> VERSION_STRING
       (objects (post (fire (CheckReady 0 0 0)
                         (Ready \<lparr> redis_version = Some ''1.2.6'',
                                  versions = [Some 1, Some 2, Some 6] \<rparr>) initial)) 0)
       = Some ''1.2.6''
   \<and> objects (post (fire (OnWrite 0 3 [] (JFun 1)) (Reply JNull (JStr ''OK'')) initial))
       = objects initial"
  using probe_records_version_and_blocking_support
          [where self = 0 and c = 0 and q = 0 and st = initial
             and info = "\<lparr> redis_version = Some ''1.2.6'', versions = [Some 1, Some 2, Some 6] \<rparr>"
             and h = "OnWrite 0 3 [] (JFun 1)" and p = "Reply JNull (JStr ''OK'')"]
  by (simp add: Let_def)

section \<open>Write-like commands\<close>

text \<open>
  C7. For \<^verbatim>\<open>set\<close>, \<^verbatim>\<open>hset\<close>, \<^verbatim>\<open>rpush\<close> and \<^verbatim>\<open>lpush\<close>, whatever the store client
  passes as \<^verbatim>\<open>(err, reply)\<close>: the reply callback first releases the Connection, logs
  when there is an error, and then calls the continuation, when it is a function,
  exactly once with \<^verbatim>\<open>(err, reply)\<close> as they came; the reply is handed on as it is,
  also beside an error. It raises nothing, issues no further command and asks the pool
  for nothing, and it leaves the state alone.
\<close>

theorem write_reply_releases_then_calls_back_once:
  assumes "funcName = ''set'' \<or> funcName = ''hset'' \<or> funcName = ''rpush'' \<or> funcName = ''lpush''"
  shows "acts (fire (AcqSet self funcName key field data cb) (Acquired e (Some c)) st)
     = [ClientCmd c funcName (if funcName = ''hset'' then [key, field, data] else [key, data])
          (OnWrite self c
             (if funcName = ''hset'' \<or> funcName = ''set''
              then ''ERROR redis-connection-pool: '' @ funcName @ '': ''
              else ''ERROR redis-connection-pool: '') cb)]
   \<and> (let out = fire (OnWrite self c msg cb) (Reply err reply) st
      in acts out = PoolRelease self c # (if truthy err then [ConsoleLog msg] else [])
                     @ (if typeof cb = TFunction then [Call cb [err, reply]] else [])
       \<and> filter is_call (acts out)
           = (if typeof cb = TFunction then [Call cb [err, reply]] else [])
       \<and> filter is_command (acts out) = [] \<and> filter is_acquire (acts out) = []
       \<and> uncaught out = None \<and> post out = st)"
  using assms
  by (auto simp add: fire_def acq_set_def on_write_def finish_def Let_def)

theorem write_reply_releases_then_calls_back_once_witness:
  "acts (fire (OnWrite 0 3 ''ERROR redis-connection-pool: '' (JFun 1))
           (Reply (JStr ''ERR'') JUndefined) initial)
     = [PoolRelease 0 3, ConsoleLog ''ERROR redis-connection-pool: '',
        Call (JFun 1) [JStr ''ERR'', JUndefined]]
   \<and> acts (fire (AcqSet 0 ''rpush'' (JStr ''k'') JNull (JStr ''v'') (JFun 1))
             (Acquired JNull (Some 3)) initial)
     = [ClientCmd 3 ''rpush'' [JStr ''k'', JStr ''v'']
          (OnWrite 0 3 ''ERROR redis-connection-pool: '' (JFun 1))]"
  using write_reply_releases_then_calls_back_once
          [where funcName = "''rpush''" and self = 0 and c = 3 and cb = "JFun 1"
             and msg = "''ERROR redis-connection-pool: ''" and err = "JStr ''ERR''"
             and reply = JUndefined and st = initial and key = "JStr ''k''"
             and field = JNull and data = "JStr ''v''" and e = JNull]
  by (simp add: Let_def)

text \<open>Read as "a store error reaches the continuation as \<^verbatim>\<open>(error, null)\<close>", the
  statement fails. A client that reports an error passes no reply: the continuation of
  \<^verbatim>\<open>set\<close> then receives \<^verbatim>\<open>undefined\<close> beside the error, where the read path
  (\<^verbatim>\<open>redisGet\<close>) puts \<^verbatim>\<open>null\<close>.\<close>

theorem write_error_reply_is_passed_through:
  "acts (fire (AcqSet 0 ''set'' (JStr ''k'') JNull (JStr ''v'') (JFun 1))
           (Acquired JNull (Some 3)) initial)
     = [ClientCmd 3 ''set'' [JStr ''k'', JStr ''v'']
          (OnWrite 0 3 ''ERROR redis-connection-pool: set: '' (JFun 1))]
   \<and> filter is_call
        (acts (fire (OnWrite 0 3 ''ERROR redis-connection-pool: set: '' (JFun 1))
                 (Reply (JStr ''ERR'') JUndefined) initial))
     = [Call (JFun 1) [JStr ''ERR'', JUndefined]]
   \<and> Call (JFun 1) [JStr ''ERR'', JNull]
       \<notin> set (acts (fire (OnWrite 0 3 ''ERROR redis-connection-pool: set: '' (JFun 1))
                       (Reply (JStr ''ERR'') JUndefined) initial))
   \<and> filter is_call
        (acts (fire (OnGet 0 ''get'' 3 (JStr ''k'') (JFun 1) 0)
                 (Reply (JStr ''ERR'') JUndefined) initial))
     = [Call (JFun 1) [JStr ''ERR'', JNull]]"
  by (simp add: fire_def acq_set_def on_write_def on_get_def call_last_def finish_def Let_def)

section \<open>clean\<close>

text \<open>
  C8. \<^verbatim>\<open>clean\<close> with a continuation asks a client of its own for the keys of the
  pattern. When the reply is an array, with or without an error beside it, the callback
  asks the pool once for each name, in order, for a Connection on which \<^verbatim>\<open>del\<close> of that
  name is issued; then it calls the continuation, exactly once and last. When the reply
  is no array (the listing failed) it asks the pool for nothing and still calls the
  continuation exactly once. An empty array is the case of no names.
\<close>

theorem clean_deletes_each_key_then_calls_back_once:
  assumes "typeof cb = TFunction"
  shows "acts (clean self key cb st)
     = [ConsoleLog ''redis-connection-pool: clearing redis key '',
        CreateClient (next_client st) None,
        ClientCmd (next_client st) ''keys'' [key] (OnKeys self (next_client st) key cb)]
   \<and> (let out = fire (OnKeys self c key cb) (Reply err (JArr names)) st
      in uncaught out = None
       \<and> filter is_acquire (acts out)
           = map (\<lambda>name. PoolAcquire self (AcqSingle self ''del'' name JUndefined)) names
       \<and> filter is_call (acts out) = [Call cb []]
       \<and> last (acts out) = Call cb [])
   \<and> fire (AcqSingle self ''del'' name JUndefined) (Acquired e (Some conn)) st
       = finish [ClientCmd conn ''del'' [name] (OnSingle self conn)] st
   \<and> (\<not> (truthy keys \<and> has_forEach keys) \<longrightarrow>
        (let out = fire (OnKeys self c key cb) (Reply err keys) st
         in uncaught out = None
          \<and> filter is_acquire (acts out) = []
          \<and> filter is_call (acts out) = [Call cb []]
          \<and> last (acts out) = Call cb []))"
  using assms
  by (auto simp add: clean_def fire_def on_keys_def acq_single_def acts_call_last
        uncaught_call_last calls_delete_each acquires_delete_each finish_def Let_def)

theorem clean_deletes_each_key_then_calls_back_once_witness:
  "filter is_acquire
     (acts (fire (OnKeys 0 3 (JStr ''p:*'') (JFun 1))
              (Reply JNull (JArr [JStr ''p:a'', JStr ''p:b''])) initial))
     = [PoolAcquire 0 (AcqSingle 0 ''del'' (JStr ''p:a'') JUndefined),
        PoolAcquire 0 (AcqSingle 0 ''del'' (JStr ''p:b'') JUndefined)]
   \<and> filter is_call
       (acts (fire (OnKeys 0 3 (JStr ''p:*'') (JFun 1))
                (Reply JNull (JArr [JStr ''p:a'', JStr ''p:b''])) initial))
     = [Call (JFun 1) []]
   \<and> filter is_call
       (acts (fire (OnKeys 0 3 (JStr ''p:*'') (JFun 1)) (Reply (JStr ''ERR'') JUndefined) initial))
     = [Call (JFun 1) []]"
  using clean_deletes_each_key_then_calls_back_once
          [where cb = "JFun 1" and self = 0 and c = 3 and key = "JStr ''p:*''"
             and err = JNull and names = "[JStr ''p:a'', JStr ''p:b'']" and st = initial
             and keys = JUndefined]
        clean_deletes_each_key_then_calls_back_once
          [where cb = "JFun 1" and self = 0 and c = 3 and key = "JStr ''p:*''"
             and err = "JStr ''ERR''" and names = "[]" and st = initial and keys = JUndefined]
  by (simp add: Let_def)

section \<open>The optional field argument\<close>

text \<open>
  C9. When the caller leaves the field out and passes a continuation, the arguments
  arrive one place early: for \<^verbatim>\<open>_getFuncs\<close> the continuation stands in the place of
  the field, for \<^verbatim>\<open>_setFuncs\<close> the payload stands there and the continuation in the
  place of the payload. Both shift them back and then ask the pool with the same name,
  key, payload and continuation as the call that passes \<^verbatim>\<open>null\<close> for the field.
\<close>

theorem omitted_field_is_shifted:
  assumes "typeof cb = TFunction"
  shows "getFuncs self funcName key cb JUndefined = getFuncs self funcName key JNull cb
   \<and> getFuncs self funcName key cb JUndefined
       = [PoolAcquire self (AcqGet self funcName key JNull cb)]
   \<and> setFuncs self funcName key data cb JUndefined = setFuncs self funcName key JNull data cb
   \<and> setFuncs self funcName key data cb JUndefined
       = [PoolAcquire self (AcqSet self funcName key JNull data cb)]"
  using assms by (simp add: getFuncs_def setFuncs_def)

theorem omitted_field_is_shifted_witness:
  "getFuncs 0 ''get'' (JStr ''k'') (JFun 1) JUndefined
     = [PoolAcquire 0 (AcqGet 0 ''get'' (JStr ''k'') JNull (JFun 1))]
   \<and> setFuncs 0 ''set'' (JStr ''k'') (JStr ''v'') (JFun 1) JUndefined
     = [PoolAcquire 0 (AcqSet 0 ''set'' (JStr ''k'') JNull (JStr ''v'') (JFun 1))]"
proof -
  have h: "typeof (JFun 1) = TFunction" by simp
  from omitted_field_is_shifted
         [OF h, where self = 0 and funcName = "''get''" and key = "JStr ''k''"]
       omitted_field_is_shifted
         [OF h, where self = 0 and funcName = "''set''" and key = "JStr ''k''"
            and data = "JStr ''v''"]
  show ?thesis by blast
qed

section \<open>hget with a falsy field\<close>

text \<open>
  C10. \<^verbatim>\<open>hget\<close> with a field that is falsy (the empty string, 0, \<^verbatim>\<open>false\<close>,
  \<^verbatim>\<open>null\<close>, \<^verbatim>\<open>undefined\<close>) and a continuation: nothing is shifted, and on the
  acquired Connection the command issued is \<^verbatim>\<open>hgetall\<close> of the key, not \<^verbatim>\<open>hget\<close> of
  the field; its reply, the whole hash, goes to the continuation.
\<close>

theorem hget_falsy_field_runs_hgetall:
  assumes "\<not> truthy field" and "typeof cb = TFunction"
  shows "hget self key field cb = [PoolAcquire self (AcqGet self ''hget'' key field cb)]
   \<and> fire (AcqGet self ''hget'' key field cb) (Acquired e (Some c)) st
       = finish [ClientCmd c ''hgetall'' [key] (OnHashGet self c key cb)] st
   \<and> fire (OnHashGet self c key cb) (Reply JNull whole) st
       = finish [PoolRelease self c, Call cb [JNull, whole]] st"
  using assms falsy_not_function[of field]
  by (simp add: hget_def getFuncs_def fire_def acq_get_def redisHashGet_def on_hashget_def
        call_last_def finish_def)

theorem hget_falsy_field_runs_hgetall_witness:
  "hget 0 (JStr ''h'') (JStr []) (JFun 1)
     = [PoolAcquire 0 (AcqGet 0 ''hget'' (JStr ''h'') (JStr []) (JFun 1))]
   \<and> fire (AcqGet 0 ''hget'' (JStr ''h'') (JStr []) (JFun 1)) (Acquired JNull (Some 3)) initial
       = finish [ClientCmd 3 ''hgetall'' [JStr ''h''] (OnHashGet 0 3 (JStr ''h'') (JFun 1))]
           initial"
  using hget_falsy_field_runs_hgetall
          [where field = "JStr []" and cb = "JFun 1" and self = 0 and key = "JStr ''h''"
             and c = 3 and st = initial and e = JNull]
  by simp

end
